theory Spec2Isabelle
  imports Main
begin

section \<open>Bytes and text\<close>

text \<open>
  A Go \<^verbatim>\<open>string\<close> and a Go \<^verbatim>\<open>[]byte\<close> are both sequences of 8-bit bytes, and the
  conversions \<^verbatim>\<open>[]byte(s)\<close>, \<^verbatim>\<open>string(b)\<close> and \<^verbatim>\<open>cast.ToString(b)\<close> keep the bytes as
  they are. HOL's \<^typ>\<open>char\<close> is an 8-bit value, so both are modelled as \<^typ>\<open>string\<close>
  and the conversions are the identity. \<open>byte_val\<close> reads a byte as the number Go
  compares it as.
\<close>

definition byte_val :: "char \<Rightarrow> nat" where
  "byte_val ch = of_char ch"

text \<open>
  \<^verbatim>\<open>encoding/hex\<close>: \<^verbatim>\<open>hextable = "0123456789abcdef"\<close>, and \<^verbatim>\<open>hex.Encode(dst, src)\<close> writes
  for each source byte \<^verbatim>\<open>v\<close> the two bytes \<^verbatim>\<open>hextable[v>>4]\<close> and \<^verbatim>\<open>hextable[v&0x0f]\<close>.
  It is called on one byte here.
\<close>

definition hextable :: string where
  "hextable = ''0123456789abcdef''"

definition hexEncode :: "char \<Rightarrow> string" where
  "hexEncode v = [hextable ! (byte_val v div 16), hextable ! (byte_val v mod 16)]"

section \<open>The escaper (json.go)\<close>

text \<open>
  \<^verbatim>\<open>u := []byte(`\u0000`)\<close>: a backslash, the letter u and four zeros.
\<close>

definition u_template :: string where
  "u_template = CHR 0x5C # ''u0000''"

text \<open>
  The loop \<^verbatim>\<open>for i, ch := range ctrl\<close> of \<^verbatim>\<open>EscapeJSONString\<close> and of \<^verbatim>\<open>EscapeCtrl\<close>; the two
  functions differ only in the test on \<^verbatim>\<open>ch\<close>, which is the parameter \<open>special\<close>. The
  arguments are the whole input \<open>ctrl\<close>, the index \<open>i\<close>, the bytes from index \<open>i\<close> on and
  the result slice \<open>esc\<close>, \<open>None\<close> while it is \<^verbatim>\<open>nil\<close>. On a special byte a \<^verbatim>\<open>nil\<close> result
  is first set to a copy of \<^verbatim>\<open>ctrl[:i]\<close>; then the template is appended and its last two
  bytes are overwritten by \<^verbatim>\<open>hex.Encode(esc[len(esc)-2:], ctrl[i:i+1])\<close>. Any other byte
  is appended only when the result is not \<^verbatim>\<open>nil\<close>.
\<close>

fun escape_loop :: "(char \<Rightarrow> bool) \<Rightarrow> string \<Rightarrow> nat \<Rightarrow> string \<Rightarrow> string option \<Rightarrow> string option" where
  "escape_loop special ctrl i [] esc = esc"
| "escape_loop special ctrl i (ch # rest) esc =
     (if special ch then
        (let esc1 = (case esc of None \<Rightarrow> take i ctrl | Some e \<Rightarrow> e);
             esc2 = esc1 @ u_template;
             esc3 = take (length esc2 - 2) esc2 @ hexEncode ch
         in escape_loop special ctrl (i + 1) rest (Some esc3))
      else
        escape_loop special ctrl (i + 1) rest
          (case esc of None \<Rightarrow> None | Some e \<Rightarrow> Some (e @ [ch])))"

definition escape_bytes :: "(char \<Rightarrow> bool) \<Rightarrow> string \<Rightarrow> string" where
  "escape_bytes special ctrl =
     (case escape_loop special ctrl 0 ctrl None of None \<Rightarrow> ctrl | Some esc \<Rightarrow> esc)"

text \<open>\<^verbatim>\<open>EscapeJSONString\<close>: the test is \<^verbatim>\<open>ch <= 31 || ch == 34\<close>.\<close>

definition json_special :: "char \<Rightarrow> bool" where
  "json_special ch = (byte_val ch \<le> 31 \<or> byte_val ch = 34)"

definition EscapeJSONString :: "string \<Rightarrow> string" where
  "EscapeJSONString ctrl = escape_bytes json_special ctrl"

text \<open>\<^verbatim>\<open>EscapeCtrl\<close>, the earlier escaper kept in json.go: the test is \<^verbatim>\<open>ch <= 31\<close>.\<close>

definition ctrl_special :: "char \<Rightarrow> bool" where
  "ctrl_special ch = (byte_val ch \<le> 31)"

definition EscapeCtrl :: "string \<Rightarrow> string" where
  "EscapeCtrl ctrl = escape_bytes ctrl_special ctrl"

text \<open>
  The escaper as the specification words it, to compare the loop with: a special byte
  becomes the six bytes backslash, u, 0, 0 and its two hexadecimal digits, any other
  byte stays.
\<close>

definition hex_digit :: "nat \<Rightarrow> char" where
  "hex_digit d = hextable ! d"

definition escape_byte :: "(char \<Rightarrow> bool) \<Rightarrow> char \<Rightarrow> string" where
  "escape_byte special ch =
     (if special ch
      then [CHR 0x5C, CHR ''u'', CHR ''0'', CHR ''0'',
            hex_digit (byte_val ch div 16), hex_digit (byte_val ch mod 16)]
      else [ch])"

definition hex_value :: "char \<Rightarrow> nat" where
  "hex_value d = (if byte_val d < 58 then byte_val d - 48 else byte_val d - 87)"

section \<open>The result model (api.go)\<close>

text \<open>
  \<^verbatim>\<open>Msg\<close>: a message text, a code and a level. The code is a Go \<^verbatim>\<open>int\<close>; it is only
  stored and compared, never computed with, so it is an \<^typ>\<open>int\<close> here.
\<close>

record Msg =
  Message :: string
  Code :: int
  Level :: string

text \<open>The zero value of \<^verbatim>\<open>Msg\<close>, which \<^verbatim>\<open>var errMsg Msg\<close> declares.\<close>

definition zeroMsg :: Msg where
  "zeroMsg = \<lparr>Message = [], Code = 0, Level = []\<rparr>"

definition NewMsg :: "string \<Rightarrow> int \<Rightarrow> string \<Rightarrow> Msg" where
  "NewMsg msg code level = \<lparr>Message = msg, Code = code, Level = level\<rparr>"

text \<open>
  \<^verbatim>\<open>jsonData\<close>, the type local to \<^verbatim>\<open>SetAPIItems\<close>. The items are \<^verbatim>\<open>[]interface{}\<close>, values
  this package never inspects: a list over a type parameter.
\<close>

record 'a jsonData =
  Kind :: string
  Verbosity :: string
  Fields :: "string list"
  TotalItems :: int
  StartIndex :: int
  CurrentItemCount :: int
  Items :: "'a list"

text \<open>
  \<^verbatim>\<open>apiData\<close>, the root. Its \<^verbatim>\<open>interface{}\<close> fields are \<^verbatim>\<open>nil\<close> (\<open>None\<close>) until the package
  stores a \<^verbatim>\<open>Msg\<close> in \<^verbatim>\<open>Note\<close>, \<^verbatim>\<open>Warning\<close> or \<^verbatim>\<open>Error\<close>, or the pointer to a \<^verbatim>\<open>jsonData\<close> in
  \<^verbatim>\<open>Data\<close>; nothing else is ever stored in them.
\<close>

record 'a apiData =
  APIVersion :: string
  Context :: string
  ID :: int
  Note :: "Msg option"
  Warning :: "Msg option"
  Error :: "Msg option"
  Data :: "'a jsonData option"

definition newAPIData :: "string \<Rightarrow> string \<Rightarrow> 'a apiData" where
  "newAPIData apiVersion context' =
     \<lparr>APIVersion = apiVersion, Context = context', ID = 0,
      Note = None, Warning = None, Error = None, Data = None\<rparr>"

text \<open>
  \<^verbatim>\<open>SetAPIItems\<close> assigns through its pointer receiver and returns the receiver: the
  model returns the updated root.
\<close>

definition SetAPIItems :: "string \<Rightarrow> string \<Rightarrow> string list \<Rightarrow> 'a list \<Rightarrow> 'a apiData \<Rightarrow> 'a apiData" where
  "SetAPIItems kind verbosity fields' items r =
     (let length' = int (length items);
          data = \<lparr>Kind = kind, Verbosity = verbosity, Fields = fields',
                  TotalItems = length', StartIndex = 1, CurrentItemCount = length',
                  Items = items\<rparr>
      in r\<lparr>Data := Some data\<rparr>)"

section \<open>Package variables and the accumulators (api.go, json.go)\<close>

text \<open>
  The package-level variables of the two files, passed explicitly: the three stored
  messages of api.go and the three formatter settings of json.go.
\<close>

record globals =
  storedFatalError :: Msg
  storedNonFatalWarning :: Msg
  storedNote :: Msg
  jsonIndentLevel :: int
  jsonPrefix :: string
  jsonRaw :: bool

text \<open>Their values when the package is loaded.\<close>

definition initial_globals :: globals where
  "initial_globals =
     \<lparr>storedFatalError = zeroMsg, storedNonFatalWarning = zeroMsg, storedNote = zeroMsg,
      jsonIndentLevel = 2, jsonPrefix = [], jsonRaw = False\<rparr>"

definition SetJSONIndentLevel :: "int \<Rightarrow> globals \<Rightarrow> globals" where
  "SetJSONIndentLevel level g = g\<lparr>jsonIndentLevel := level\<rparr>"

definition SetJSONPrefix :: "string \<Rightarrow> globals \<Rightarrow> globals" where
  "SetJSONPrefix pfx g = g\<lparr>jsonPrefix := pfx\<rparr>"

definition SetJSONRaw :: "bool \<Rightarrow> globals \<Rightarrow> globals" where
  "SetJSONRaw b g = g\<lparr>jsonRaw := b\<rparr>"

definition SetStoredFatalError :: "Msg \<Rightarrow> globals \<Rightarrow> globals" where
  "SetStoredFatalError msg g = g\<lparr>storedFatalError := msg\<rparr>"

text \<open>
  The variadic \<^verbatim>\<open>defCode ...int\<close> is a slice: \<^verbatim>\<open>nil\<close> (\<open>None\<close>) when the caller passes no
  code, and otherwise the codes passed. \<^verbatim>\<open>defCode[0]\<close> is read whenever the slice is not
  \<^verbatim>\<open>nil\<close>, so an empty slice that is not \<^verbatim>\<open>nil\<close> (a caller spreading an empty slice) panics.
\<close>

datatype go_panic = IndexOutOfRange

definition defaultCode_of :: "int list option \<Rightarrow> go_panic + int" where
  "defaultCode_of defCode =
     (case defCode of
        None \<Rightarrow> Inr 0
      | Some [] \<Rightarrow> Inl IndexOutOfRange
      | Some (d # _) \<Rightarrow> Inr d)"

definition SetStoredNonFatalWarning :: "Msg \<Rightarrow> int list option \<Rightarrow> globals \<Rightarrow> go_panic + globals" where
  "SetStoredNonFatalWarning msg defCode g =
     (case defaultCode_of defCode of
        Inl p \<Rightarrow> Inl p
      | Inr defaultCode \<Rightarrow>
          (let msg =
                 (if Message (storedNonFatalWarning g) \<noteq> [] then
                    (let msg = msg\<lparr>Message := Message msg @ Message (storedNonFatalWarning g)\<rparr>
                     in if Code msg = 0 \<or> Code msg = defaultCode then
                          (if \<not> (Code (storedNonFatalWarning g) = 0
                                 \<or> Code (storedNonFatalWarning g) = defaultCode)
                           then msg\<lparr>Code := Code (storedNonFatalWarning g)\<rparr>
                           else msg)
                        else msg)
                  else msg)
           in Inr (g\<lparr>storedNonFatalWarning := msg\<rparr>)))"

definition SetStoredNote :: "Msg \<Rightarrow> int list option \<Rightarrow> globals \<Rightarrow> go_panic + globals" where
  "SetStoredNote msg defCode g =
     (case defaultCode_of defCode of
        Inl p \<Rightarrow> Inl p
      | Inr defaultCode \<Rightarrow>
          (let msg =
                 (if Message (storedNote g) \<noteq> [] then
                    (let msg = msg\<lparr>Message := Message msg @ Message (storedNote g)\<rparr>
                     in if Code msg = 0 \<or> Code msg = defaultCode then
                          (if \<not> (Code (storedNote g) = 0 \<or> Code (storedNote g) = defaultCode)
                           then msg\<lparr>Code := Code (storedNote g)\<rparr>
                           else msg)
                        else msg)
                  else msg)
           in Inr (g\<lparr>storedNote := msg\<rparr>)))"

text \<open>
  The additive policy as the specification words it, to compare the two setters with:
  the new text followed at once by the old text; the old code when the new code is
  unset or the default while the old code is neither; the new level.
\<close>

definition latched :: "Msg \<Rightarrow> Msg \<Rightarrow> int \<Rightarrow> Msg" where
  "latched new old d =
     \<lparr>Message = Message new @ Message old,
      Code = (if (Code new = 0 \<or> Code new = d) \<and> \<not> (Code old = 0 \<or> Code old = d)
              then Code old else Code new),
      Level = Level new\<rparr>"

section \<open>What the package calls outside itself\<close>

text \<open>
  Four functions of other packages, taken as parameters; nothing is assumed of them.
  \<^item> \<open>jsonMarshal\<close> is \<^verbatim>\<open>json.Marshal\<close> on a root: \<open>Inr\<close> the encoded bytes, or \<open>Inl\<close> the
    text of the error.
  \<^item> \<open>jsonIndent\<close> is \<^verbatim>\<open>json.Indent(&out, b, prefix, indent)\<close> on an empty buffer: the
    buffer's bytes afterwards, and the text of the error when there is one.
  \<^item> \<open>strPad\<close> is \<^verbatim>\<open>str.Pad\<close>.
  \<^item> \<open>osGetenv\<close> is \<^verbatim>\<open>os.Getenv\<close>, the empty text for a variable that is not set.
\<close>

record 'a platform =
  jsonMarshal :: "'a apiData \<Rightarrow> string + string"
  jsonIndent :: "string \<Rightarrow> string \<Rightarrow> string \<Rightarrow> string \<times> string option"
  strPad :: "string \<Rightarrow> string \<Rightarrow> int \<Rightarrow> string"
  osGetenv :: "string \<Rightarrow> string"

section \<open>The formatter (json.go)\<close>

text \<open>
  \<^verbatim>\<open>PrettyJSON(b, fmt...)\<close>. Only the length of the variadic \<^verbatim>\<open>fmt\<close> and its first two
  entries are read, each under the length test that makes the index valid. The error
  is \<open>None\<close> for \<^verbatim>\<open>nil\<close>.
\<close>

definition PrettyJSON :: "'a platform \<Rightarrow> globals \<Rightarrow> string \<Rightarrow> string list \<Rightarrow> string \<times> string option" where
  "PrettyJSON px g b fmt =
     (if jsonRaw g then (b, None)
      else
        (let prefix = jsonPrefix g;
             indent = strPad px [] '' '' (jsonIndentLevel g);
             (prefix, indent) =
               (if length fmt = 1 then (fmt ! 0, indent)
                else if length fmt = 2 then (fmt ! 0, fmt ! 1)
                else (prefix, indent));
             (out, err) = jsonIndent px b prefix indent
         in (out @ [CHR 0x0A], err)))"

section \<open>The fallback builder (json.go)\<close>

text \<open>
  The verb \<^verbatim>\<open>%d\<close> of \<^verbatim>\<open>fmt.Sprintf\<close> on an \<^verbatim>\<open>int\<close>: the decimal digits, after a minus sign
  for a negative number.
\<close>

fun nat_digits :: "nat \<Rightarrow> string" where
  "nat_digits n =
     (if n < 10 then [''0123456789'' ! n]
      else nat_digits (n div 10) @ [''0123456789'' ! (n mod 10)])"

declare nat_digits.simps [simp del]

definition fmt_d :: "int \<Rightarrow> string" where
  "fmt_d i = (if i < 0 then CHR ''-'' # nat_digits (nat (- i)) else nat_digits (nat i))"

text \<open>
  \<^verbatim>\<open>encodeMsgInRawJSON\<close>: the format is
  \<^verbatim>\<open>"\"%s\": { \"message\": \"%s\", \"code\": %d, \"level\": \"%s\"}"\<close>.
\<close>

definition encodeMsgInRawJSON :: "string \<Rightarrow> Msg \<Rightarrow> string" where
  \<open>encodeMsgInRawJSON flavor msg =
     (if Message msg = [] then []
      else
        (let cleanMsg = EscapeJSONString (Message msg);
             rawJSON = ''"'' @ flavor @ ''": { "message": "'' @ cleanMsg
                       @ ''", "code": '' @ fmt_d (Code msg)
                       @ '', "level": "'' @ Level msg @ ''"}''
         in rawJSON))\<close>

text \<open>
  \<^verbatim>\<open>FatalJSONMsg\<close>; the last format is \<^verbatim>\<open>"{ \"apiVersion\":\"%s\", \"id\": %d, %s }"\<close>.
\<close>

definition FatalJSONMsg :: "'a platform \<Rightarrow> globals \<Rightarrow> string \<Rightarrow> Msg \<Rightarrow> string" where
  \<open>FatalJSONMsg px g apiVer errMsg =
     (let noteMsgJSON = encodeMsgInRawJSON ''note'' (storedNote g);
          warnMsgJSON = encodeMsgInRawJSON ''warning'' (storedNonFatalWarning g);
          errMsgJSON = encodeMsgInRawJSON ''error'' errMsg;
          errMsgJSON =
            (if errMsgJSON = [] then
               (let errMsgJSON = encodeMsgInRawJSON ''error'' (storedFatalError g)
                in if errMsgJSON = [] then
                     (let errMsg = NewMsg ''Unknown Fatal Error (Coding Error?)'' 0 ''UNKNOWN''
                      in encodeMsgInRawJSON ''error'' errMsg)
                   else errMsgJSON)
             else errMsgJSON);
          msgsJSON = [];
          msgsJSON = (if noteMsgJSON \<noteq> [] then noteMsgJSON @ '', '' else msgsJSON);
          msgsJSON = (if warnMsgJSON \<noteq> [] then msgsJSON @ warnMsgJSON @ '', '' else msgsJSON);
          msgsJSON = msgsJSON @ errMsgJSON;
          cmdError = - 1;
          rawJSON = ''{ "apiVersion":"'' @ apiVer @ ''", "id": '' @ fmt_d cmdError
                    @ '', '' @ msgsJSON @ '' }'';
          (output, err) = PrettyJSON px g rawJSON []
      in if err \<noteq> None then rawJSON else output)\<close>

text \<open>
  The fragment as the specification words it, to compare \<^verbatim>\<open>FatalJSONMsg\<close> with: a message
  fragment \<^verbatim>\<open>"<flavor>": { "message": ..., "code": ..., "level": ... }\<close>, and the whole
  fragment around the version, the id -1, the note and warning fragments (\<open>others\<close>) and
  the error fragment. The bytes are those of the code's formats, which put no space
  between the level's closing quote and the inner closing brace.
\<close>

definition message_fragment :: "string \<Rightarrow> Msg \<Rightarrow> string" where
  \<open>message_fragment flavor msg =
     ''"'' @ flavor @ ''": { "message": "'' @ EscapeJSONString (Message msg)
     @ ''", "code": '' @ fmt_d (Code msg) @ '', "level": "'' @ Level msg @ ''"}''\<close>

definition fallback_fragment :: "string \<Rightarrow> string \<Rightarrow> Msg \<Rightarrow> string" where
  \<open>fallback_fragment version others msg =
     ''{ "apiVersion":"'' @ version @ ''", "id": -1, '' @ others
     @ message_fragment ''error'' msg @ '' }''\<close>

text \<open>
  The note and warning fragments ahead of the error fragment, each followed by a comma
  and a space, for the messages that are latched (their text is not empty).
\<close>

definition latched_fragments :: "globals \<Rightarrow> string" where
  "latched_fragments g =
     (if Message (storedNote g) = [] then []
      else message_fragment ''note'' (storedNote g) @ '', '')
     @ (if Message (storedNonFatalWarning g) = [] then []
        else message_fragment ''warning'' (storedNonFatalWarning g) @ '', '')"

text \<open>
  The message the error fragment is built from: the given one when it has a text, else
  the latched fatal error when it has one, else the fixed unknown error.
\<close>

definition fallback_error :: "globals \<Rightarrow> Msg \<Rightarrow> Msg" where
  "fallback_error g msg =
     (if Message msg \<noteq> [] then msg
      else if Message (storedFatalError g) \<noteq> [] then storedFatalError g
      else \<lparr>Message = ''Unknown Fatal Error (Coding Error?)'', Code = 0, Level = ''UNKNOWN''\<rparr>)"

section \<open>The output builder (json.go)\<close>

text \<open>
  \<^verbatim>\<open>GetJSONOutput\<close> is modelled in two parts. The first runs from its declarations to the
  statement before the first \<^verbatim>\<open>json.Marshal\<close> (lines 175 to 224) and returns the local
  variables the rest reads; the second is the rest of the function (lines 225 to 263).
\<close>

record 'a output_locals =
  apiVer_of :: string
  errMsg_of :: Msg
  warnMsg_of :: Msg
  noteMsg_of :: Msg
  fatalErr_of :: bool
  apiRoot_of :: "'a apiData"

definition GetJSONOutput_build ::
  "'a platform \<Rightarrow> globals \<Rightarrow> string \<Rightarrow> string \<Rightarrow> string \<Rightarrow> string \<Rightarrow> string list \<Rightarrow> 'a list
     \<Rightarrow> 'a output_locals" where
  "GetJSONOutput_build px g apiVer context' kind verbosity fields' items =
     (let errMsg = zeroMsg; warnMsg = zeroMsg; noteMsg = zeroMsg;
          fatalErr = False;
          (apiVer, errMsg, fatalErr) =
            (if apiVer = [] then
               (let apiVer = osGetenv px ''PKG_API_APIVER''
                in if apiVer = [] then
                     (''?.?'',
                      errMsg\<lparr>Message := ''No valid JSON API version is available'',
                             Code := 1001, Level := ''FATAL''\<rparr>,
                      True)
                   else (apiVer, errMsg, fatalErr))
             else (apiVer, errMsg, fatalErr));
          apiRoot = newAPIData apiVer context';
          (errMsg, fatalErr) =
            (if Message errMsg = [] \<and> Message (storedFatalError g) \<noteq> [] then
               (let errMsg = storedFatalError g;
                    cleanErrMsg = EscapeJSONString (Message errMsg)
                in (errMsg\<lparr>Message := cleanErrMsg\<rparr>, True))
             else (errMsg, fatalErr));
          warnMsg =
            (if Message (storedNonFatalWarning g) \<noteq> [] then
               (let warnMsg = storedNonFatalWarning g;
                    cleanWarnMsg = EscapeJSONString (Message warnMsg)
                in warnMsg\<lparr>Message := cleanWarnMsg\<rparr>)
             else warnMsg);
          noteMsg =
            (if Message (storedNote g) \<noteq> [] then
               (let noteMsg = storedNote g;
                    cleanNoteMsg = EscapeJSONString (Message noteMsg)
                in noteMsg\<lparr>Message := cleanNoteMsg\<rparr>)
             else noteMsg);
          apiRoot =
            (if Message errMsg = [] then
               (let apiRoot = SetAPIItems kind verbosity fields' items apiRoot;
                    apiRoot = (if Message warnMsg \<noteq> [] then apiRoot\<lparr>Warning := Some warnMsg\<rparr>
                               else apiRoot);
                    apiRoot = (if Message noteMsg \<noteq> [] then apiRoot\<lparr>Note := Some noteMsg\<rparr>
                               else apiRoot)
                in apiRoot)
             else apiRoot\<lparr>ID := - 1, Error := Some errMsg\<rparr>)
      in \<lparr>apiVer_of = apiVer, errMsg_of = errMsg, warnMsg_of = warnMsg, noteMsg_of = noteMsg,
          fatalErr_of = fatalErr, apiRoot_of = apiRoot\<rparr>)"

text \<open>
  The warning that records a formatting failure, and the root that is encoded again
  with it (lines 241 to 244).
\<close>

definition beautify_warning :: "Msg \<Rightarrow> string \<Rightarrow> Msg" where
  "beautify_warning warnMsg err =
     warnMsg\<lparr>Message := ''Unable to beautify JSON output: '' @ err,
             Code := 1003, Level := ''ISSUE''\<rparr>"

definition GetJSONOutput_encode :: "'a platform \<Rightarrow> globals \<Rightarrow> 'a output_locals \<Rightarrow> string \<times> bool" where
  "GetJSONOutput_encode px g st =
     (let apiVer = apiVer_of st; errMsg = errMsg_of st; warnMsg = warnMsg_of st;
          fatalErr = fatalErr_of st; apiRoot = apiRoot_of st
      in case jsonMarshal px apiRoot of
           Inl err \<Rightarrow>
             (let (errMsg, fatalErr) =
                    (if Message errMsg = [] then
                       (errMsg\<lparr>Message := ''Unable to marshal basic JSON API string'',
                               Code := 1002, Level := ''FATAL''\<rparr>,
                        True)
                     else (errMsg, fatalErr));
                  rawJSON = FatalJSONMsg px g apiVer errMsg
              in (rawJSON, fatalErr))
         | Inr j \<Rightarrow>
             (case PrettyJSON px g j [] of
                (output, None) \<Rightarrow> (output, fatalErr)
              | (output, Some err) \<Rightarrow>
                  (let warnMsg = beautify_warning warnMsg err;
                       apiRoot = apiRoot\<lparr>Warning := Some warnMsg\<rparr>
                   in case jsonMarshal px apiRoot of
                        Inl err \<Rightarrow>
                          (let warnMsg = warnMsg\<lparr>Level := ''FATAL''\<rparr>;
                               fatalErr = True;
                               rawJSON = FatalJSONMsg px g apiVer warnMsg
                           in (rawJSON, fatalErr))
                      | Inr j \<Rightarrow>
                          (case PrettyJSON px g j [] of
                             (output, None) \<Rightarrow> (output, fatalErr)
                           | (output, Some err) \<Rightarrow> (j, fatalErr)))))"

definition GetJSONOutput ::
  "'a platform \<Rightarrow> globals \<Rightarrow> string \<Rightarrow> string \<Rightarrow> string \<Rightarrow> string \<Rightarrow> string list \<Rightarrow> 'a list
     \<Rightarrow> string \<times> bool" where
  "GetJSONOutput px g apiVer context' kind verbosity fields' items =
     GetJSONOutput_encode px g
       (GetJSONOutput_build px g apiVer context' kind verbosity fields' items)"

text \<open>
  What the root and the two encodings decide, read off the first part: the root that
  is encoded, the text of a formatting failure of its encoding, and the root that is
  encoded again after one.
\<close>

definition marshal_failed :: "'a platform \<Rightarrow> 'a apiData \<Rightarrow> bool" where
  "marshal_failed px r = (case jsonMarshal px r of Inl err \<Rightarrow> True | Inr j \<Rightarrow> False)"

definition format_failure :: "'a platform \<Rightarrow> globals \<Rightarrow> 'a apiData \<Rightarrow> string option" where
  "format_failure px g r =
     (case jsonMarshal px r of Inl err \<Rightarrow> None | Inr j \<Rightarrow> snd (PrettyJSON px g j []))"

definition reencoded_root :: "Msg \<Rightarrow> string \<Rightarrow> 'a apiData \<Rightarrow> 'a apiData" where
  "reencoded_root warnMsg err r = r\<lparr>Warning := Some (beautify_warning warnMsg err)\<rparr>"

section \<open>Concrete surroundings\<close>

text \<open>
  Stand-ins for the outside functions, for running the model on concrete inputs: an
  encoder that always succeeds with the text \<open>{}\<close> and one that always fails, an
  indenter that succeeds and returns its input and one that always fails, a padding
  of blanks, and an environment with no variable set or with the version variable set.
\<close>

definition pad_blanks :: "string \<Rightarrow> string \<Rightarrow> int \<Rightarrow> string" where
  "pad_blanks s c n = s @ replicate (nat n - length s) (CHR '' '')"

definition demo_platform :: "bool \<Rightarrow> bool \<Rightarrow> string \<Rightarrow> nat platform" where
  "demo_platform marshal_ok indent_ok ver =
     \<lparr>jsonMarshal = (\<lambda>r. if marshal_ok then Inr ''{}'' else Inl ''unsupported type''),
      jsonIndent = (\<lambda>b prefix indent. if indent_ok then (b, None) else ([], Some ''invalid character'')),
      strPad = pad_blanks,
      osGetenv = (\<lambda>name. if name = ''PKG_API_APIVER'' then ver else [])\<rparr>"

section \<open>The escaper: the loop against its specification\<close>

lemma hexEncode_eq:
  "hexEncode ch = [hex_digit (byte_val ch div 16), hex_digit (byte_val ch mod 16)]"
  by (simp add: hexEncode_def hex_digit_def)

lemma escape_byte_plain: "\<not> special ch \<Longrightarrow> escape_byte special ch = [ch]"
  by (simp add: escape_byte_def)

text \<open>Appending the template and overwriting its last two bytes is appending the escape.\<close>

lemma escape_step:
  "special ch \<Longrightarrow>
   take (length (e @ u_template) - 2) (e @ u_template) @ hexEncode ch = e @ escape_byte special ch"
  by (simp add: u_template_def escape_byte_def hexEncode_eq)

text \<open>Once the result slice exists, the loop appends the escape of every byte left.\<close>

lemma escape_loop_Some:
  "escape_loop special ctrl i rest (Some e) = Some (e @ concat (map (escape_byte special) rest))"
proof (induction rest arbitrary: i e)
  case Nil
  then show ?case by simp
next
  case (Cons ch rest)
  show ?case
  proof (cases "special ch")
    case True
    then show ?thesis
      using Cons.IH [of "i + 1" "e @ escape_byte special ch"] escape_step [of special ch e]
      by (simp add: Let_def)
  next
    case False
    then show ?thesis
      using Cons.IH [of "i + 1" "e @ [ch]"] by (simp add: escape_byte_plain)
  qed
qed

lemma escape_plain:
  "list_all (\<lambda>c. \<not> special c) xs \<Longrightarrow> concat (map (escape_byte special) xs) = xs"
  by (induction xs) (simp_all add: escape_byte_plain)

text \<open>
  While the result slice is \<^verbatim>\<open>nil\<close>, the bytes left are those from index \<open>i\<close> on; the
  slice stays \<^verbatim>\<open>nil\<close> when none of them is special, and otherwise starts from \<^verbatim>\<open>ctrl[:i]\<close>.
\<close>

lemma escape_loop_None:
  "drop i ctrl = rest \<Longrightarrow>
   escape_loop special ctrl i rest None =
     (if list_all (\<lambda>c. \<not> special c) rest then None
      else Some (take i ctrl @ concat (map (escape_byte special) rest)))"
proof (induction rest arbitrary: i)
  case Nil
  then show ?case by simp
next
  case (Cons ch rest)
  have d: "drop (i + 1) ctrl = rest"
    using Cons.prems by (metis Suc_eq_plus1 drop_Suc tl_drop list.sel(3))
  have t: "take (i + 1) ctrl = take i ctrl @ [ch]"
    using Cons.prems
    by (metis Suc_eq_plus1 hd_drop_conv_nth list.sel(1) take_Suc_conv_app_nth
        linorder_not_less drop_all list.distinct(1))
  show ?case
  proof (cases "special ch")
    case True
    then show ?thesis
      using escape_step [of special ch "take i ctrl"]
        escape_loop_Some [of special ctrl "i + 1" rest]
      by (simp add: Let_def)
  next
    case False
    then show ?thesis
      using Cons.IH [OF d] t by (simp add: escape_byte_plain)
  qed
qed

lemma escape_bytes_concat:
  "escape_bytes special ctrl = concat (map (escape_byte special) ctrl)"
  using escape_loop_None [of 0 ctrl ctrl special]
  by (simp add: escape_bytes_def escape_plain)

lemma escape_bytes_empty_iff: "escape_bytes special ctrl = [] \<longleftrightarrow> ctrl = []"
  by (cases ctrl) (auto simp: escape_bytes_concat escape_byte_def)

lemma EscapeJSONString_empty_iff: "EscapeJSONString m = [] \<longleftrightarrow> m = []"
  by (simp add: EscapeJSONString_def escape_bytes_empty_iff)

subsection \<open>Hexadecimal digits\<close>

lemma below16_cases:
  "d < 16 \<Longrightarrow> d \<in> {0, 1, 2, 3, 4, 5, 6, 7, 8, 9, 10, 11, 12, 13, 14, 15::nat}"
  by simp arith

lemma hex_digit_val:
  "d < 16 \<Longrightarrow> byte_val (hex_digit d) = (if d < 10 then 48 + d else 87 + d)"
  using below16_cases [of d]
  by (auto simp: hex_digit_def hextable_def byte_val_def)

lemma hex_value_digit: "d < 16 \<Longrightarrow> hex_value (hex_digit d) = d"
  by (simp add: hex_value_def hex_digit_val)

lemma byte_val_bound: "byte_val ch < 256"
  by (simp add: byte_val_def)

lemma hex_roundtrip:
  "hex_value (hex_digit (byte_val ch div 16)) * 16
     + hex_value (hex_digit (byte_val ch mod 16)) = byte_val ch"
proof -
  have "byte_val ch div 16 < 16" using byte_val_bound [of ch] by simp
  then show ?thesis by (simp add: hex_value_digit)
qed

lemma hex_digit_not_special: "d < 16 \<Longrightarrow> \<not> json_special (hex_digit d)"
  by (simp add: json_special_def hex_digit_val)

lemma template_not_special:
  "\<not> json_special (CHR 0x5C)" "\<not> json_special (CHR ''u'')" "\<not> json_special (CHR ''0'')"
  by (simp_all add: json_special_def byte_val_def)

subsection \<open>The output of a pass holds no special byte\<close>

lemma escape_byte_clean:
  assumes sub: "\<And>c. special c \<Longrightarrow> json_special c"
  shows "list_all (\<lambda>c. \<not> special c) (escape_byte special ch)"
proof (cases "special ch")
  case True
  have "byte_val ch div 16 < 16" using byte_val_bound [of ch] by simp
  then have "list_all (\<lambda>c. \<not> json_special c) (escape_byte special ch)"
    using True by (simp add: escape_byte_def template_not_special hex_digit_not_special)
  then show ?thesis using sub by (auto simp: list_all_iff)
next
  case False
  then show ?thesis by (simp add: escape_byte_plain)
qed

lemma escape_bytes_clean:
  assumes sub: "\<And>c. special c \<Longrightarrow> json_special c"
  shows "list_all (\<lambda>c. \<not> special c) (escape_bytes special ctrl)"
  unfolding escape_bytes_concat
  using escape_byte_clean [OF sub] by (induction ctrl) simp_all

lemma escape_bytes_idem:
  assumes sub: "\<And>c. special c \<Longrightarrow> json_special c"
  shows "escape_bytes special (escape_bytes special ctrl) = escape_bytes special ctrl"
  using escape_plain [OF escape_bytes_clean [OF sub]]
  by (simp add: escape_bytes_concat)

lemma ctrl_sub_json: "ctrl_special c \<Longrightarrow> json_special c"
  by (simp add: ctrl_special_def json_special_def)

text \<open>
  Claim C5. For every byte sequence \<open>b\<close>, \<^verbatim>\<open>EscapeJSONString\<close> replaces each byte of value
  at most 31 and each double-quote byte (34) by the six bytes backslash, u, 0, 0 and
  the two hexadecimal digits of the byte (the digits read back give the byte), leaves
  every other byte unchanged and in order, and returns \<open>b\<close> itself when \<open>b\<close> holds no
  such byte.
\<close>

theorem EscapeJSONString_replaces_special_bytes:
  "EscapeJSONString b = concat (map (escape_byte json_special) b)
   \<and> (\<forall>ch. escape_byte json_special ch =
         (if byte_val ch \<le> 31 \<or> byte_val ch = 34
          then [CHR 0x5C, CHR ''u'', CHR ''0'', CHR ''0'',
                hex_digit (byte_val ch div 16), hex_digit (byte_val ch mod 16)]
          else [ch])
       \<and> hex_value (hex_digit (byte_val ch div 16)) * 16
           + hex_value (hex_digit (byte_val ch mod 16)) = byte_val ch)
   \<and> (list_all (\<lambda>ch. \<not> (byte_val ch \<le> 31 \<or> byte_val ch = 34)) b \<longrightarrow> EscapeJSONString b = b)"
proof -
  have a: "EscapeJSONString b = concat (map (escape_byte json_special) b)"
    by (simp add: EscapeJSONString_def escape_bytes_concat)
  have c: "list_all (\<lambda>ch. \<not> (byte_val ch \<le> 31 \<or> byte_val ch = 34)) b \<longrightarrow> EscapeJSONString b = b"
    using escape_plain [of json_special b] by (simp add: a json_special_def)
  show ?thesis
    using a c hex_roundtrip by (simp add: escape_byte_def json_special_def)
qed

text \<open>
  The theorem at a text with no special byte, and at the bytes a, double quote, line
  feed, z.
\<close>

theorem EscapeJSONString_replaces_special_bytes_witness:
  "EscapeJSONString ''abc'' = ''abc''
   \<and> EscapeJSONString [CHR ''a'', CHR 0x22, CHR 0x0A, CHR ''z'']
       = ''a'' @ CHR 0x5C # ''u0022'' @ CHR 0x5C # ''u000az''"
  using EscapeJSONString_replaces_special_bytes [of "''abc''"]
    EscapeJSONString_replaces_special_bytes [of "[CHR ''a'', CHR 0x22, CHR 0x0A, CHR ''z'']"]
  by (simp add: escape_byte_def json_special_def byte_val_def hex_digit_def hextable_def)

text \<open>
  Claim C10. Escaping is idempotent: the output of one pass of \<^verbatim>\<open>EscapeJSONString\<close> holds
  no byte of value at most 31 and no double-quote byte, so a second pass returns it
  unchanged. The same holds of the earlier \<^verbatim>\<open>EscapeCtrl\<close> for the bytes it escapes.
\<close>

theorem EscapeJSONString_idempotent:
  "EscapeJSONString (EscapeJSONString b) = EscapeJSONString b
   \<and> list_all (\<lambda>ch. \<not> (byte_val ch \<le> 31 \<or> byte_val ch = 34)) (EscapeJSONString b)
   \<and> EscapeCtrl (EscapeCtrl b) = EscapeCtrl b
   \<and> list_all (\<lambda>ch. \<not> byte_val ch \<le> 31) (EscapeCtrl b)"
  using escape_bytes_idem [of json_special b] escape_bytes_clean [of json_special b]
    escape_bytes_idem [of ctrl_special b, OF ctrl_sub_json]
    escape_bytes_clean [of ctrl_special b, OF ctrl_sub_json]
  by (simp add: EscapeJSONString_def EscapeCtrl_def json_special_def ctrl_special_def)

section \<open>The result model and the accumulators\<close>

text \<open>
  Claim C9. For every root and all arguments, \<^verbatim>\<open>SetAPIItems\<close> sets the data section's
  \<^verbatim>\<open>TotalItems\<close> and \<^verbatim>\<open>CurrentItemCount\<close> to the number of items and \<^verbatim>\<open>StartIndex\<close> to 1,
  replaces a data section attached before as a whole, and leaves the id, the version,
  the context and the error, warning and note fields as they were.
\<close>

theorem SetAPIItems_sets_counts_and_replaces_data:
  "Data (SetAPIItems kind verbosity fs items r) =
     Some \<lparr>Kind = kind, Verbosity = verbosity, Fields = fs,
           TotalItems = int (length items), StartIndex = 1,
           CurrentItemCount = int (length items), Items = items\<rparr>
   \<and> SetAPIItems kind verbosity fs items (SetAPIItems kind2 verbosity2 fs2 items2 r)
       = SetAPIItems kind verbosity fs items r
   \<and> ID (SetAPIItems kind verbosity fs items r) = ID r
   \<and> APIVersion (SetAPIItems kind verbosity fs items r) = APIVersion r
   \<and> Context (SetAPIItems kind verbosity fs items r) = Context r
   \<and> Error (SetAPIItems kind verbosity fs items r) = Error r
   \<and> Warning (SetAPIItems kind verbosity fs items r) = Warning r
   \<and> Note (SetAPIItems kind verbosity fs items r) = Note r"
  by (simp add: SetAPIItems_def Let_def)

text \<open>
  Claim C6. With a default code \<open>d\<close> (0 when none is passed, else the first code
  passed), latching a message through \<^verbatim>\<open>SetStoredNonFatalWarning\<close> or \<^verbatim>\<open>SetStoredNote\<close> while
  a message with a text is stored leaves the new text followed at once by the old
  text, and the old code only when the new code is 0 or \<open>d\<close> while the old code is
  neither; otherwise the new code. So latching two messages in sequence on an empty
  slot, the first with a text, stores the second text followed by the first.
\<close>

theorem latch_puts_new_text_before_old:
  assumes d: "defaultCode_of defCode = Inr d"
  shows
  "(Message (storedNonFatalWarning g) \<noteq> [] \<longrightarrow>
      SetStoredNonFatalWarning new defCode g
        = Inr (g\<lparr>storedNonFatalWarning := latched new (storedNonFatalWarning g) d\<rparr>))
   \<and> (Message (storedNote g) \<noteq> [] \<longrightarrow>
      SetStoredNote new defCode g = Inr (g\<lparr>storedNote := latched new (storedNote g) d\<rparr>))
   \<and> (Message (storedNonFatalWarning g) = [] \<and> Message first \<noteq> [] \<longrightarrow>
      (case SetStoredNonFatalWarning first defCode g of
         Inl p \<Rightarrow> Inl p | Inr g1 \<Rightarrow> SetStoredNonFatalWarning new defCode g1)
        = Inr (g\<lparr>storedNonFatalWarning := latched new first d\<rparr>))
   \<and> (Message (storedNote g) = [] \<and> Message first \<noteq> [] \<longrightarrow>
      (case SetStoredNote first defCode g of
         Inl p \<Rightarrow> Inl p | Inr g1 \<Rightarrow> SetStoredNote new defCode g1)
        = Inr (g\<lparr>storedNote := latched new first d\<rparr>))"
  using d by (simp add: SetStoredNonFatalWarning_def SetStoredNote_def latched_def Let_def)

text \<open>
  The theorem with the default code 5: the warnings A (code 7) then B (code 5) leave
  the text BA with the code 7; the note B (code 0) on a stored note A (code 5) leaves
  the text BA with the code 0.
\<close>

theorem latch_puts_new_text_before_old_witness:
  "defaultCode_of (Some [5]) = Inr 5
   \<and> (case SetStoredNonFatalWarning (NewMsg ''A'' 7 ''WARN'') (Some [5]) initial_globals of
         Inl p \<Rightarrow> Inl p
       | Inr g1 \<Rightarrow> SetStoredNonFatalWarning (NewMsg ''B'' 5 ''ISSUE'') (Some [5]) g1)
      = Inr (initial_globals
               \<lparr>storedNonFatalWarning := \<lparr>Message = ''BA'', Code = 7, Level = ''ISSUE''\<rparr>\<rparr>)
   \<and> SetStoredNote (NewMsg ''B'' 0 ''NOTE'') (Some [5])
        (initial_globals\<lparr>storedNote := NewMsg ''A'' 5 ''NOTE''\<rparr>)
      = Inr (initial_globals\<lparr>storedNote := \<lparr>Message = ''BA'', Code = 0, Level = ''NOTE''\<rparr>\<rparr>)"
proof -
  have d: "defaultCode_of (Some [5]) = Inr 5" by (simp add: defaultCode_of_def)
  show ?thesis
    using d
      latch_puts_new_text_before_old [OF d, of initial_globals
        "NewMsg ''B'' 5 ''ISSUE''" "NewMsg ''A'' 7 ''WARN''"]
      latch_puts_new_text_before_old [OF d,
        of "initial_globals\<lparr>storedNote := NewMsg ''A'' 5 ''NOTE''\<rparr>" "NewMsg ''B'' 0 ''NOTE''"]
    by (simp add: latched_def NewMsg_def initial_globals_def zeroMsg_def)
qed

section \<open>The formatter\<close>

text \<open>
  Claim C8. In raw mode \<^verbatim>\<open>PrettyJSON\<close> returns its input bytes as text unchanged (nothing
  indented, prefixed or appended) and no error, whatever the indent level and the
  prefix are set to and whatever optional arguments are passed.
\<close>

theorem PrettyJSON_raw_mode_unchanged:
  "jsonRaw g \<Longrightarrow> PrettyJSON px g b fmt = (b, None)"
  by (simp add: PrettyJSON_def)

text \<open>
  The theorem in raw mode with the indent level 7 and the prefix \<open>>>\<close> set, two
  optional arguments, an input that is no well-formed document and an indenter that
  fails.
\<close>

theorem PrettyJSON_raw_mode_unchanged_witness:
  "jsonRaw (SetJSONRaw True (SetJSONPrefix ''>>'' (SetJSONIndentLevel 7 initial_globals)))
   \<and> PrettyJSON (demo_platform True False [])
        (SetJSONRaw True (SetJSONPrefix ''>>'' (SetJSONIndentLevel 7 initial_globals)))
        ''[1, 2'' [''--'', ''    '']
      = (''[1, 2'', None)"
proof -
  have r: "jsonRaw (SetJSONRaw True (SetJSONPrefix ''>>'' (SetJSONIndentLevel 7 initial_globals)))"
    by (simp add: SetJSONRaw_def)
  show ?thesis
    using r PrettyJSON_raw_mode_unchanged [OF r, of "demo_platform True False []"
        "''[1, 2''" "[''--'', ''    '']"]
    by simp
qed

section \<open>The fallback builder\<close>

lemma fmt_d_minus_one: "fmt_d (- 1) = ''-1''"
  by (simp add: fmt_d_def nat_digits.simps)

lemma message_fragment_nonempty: "message_fragment flavor msg \<noteq> []"
  by (simp add: message_fragment_def)

lemma encodeMsgInRawJSON_eq:
  "encodeMsgInRawJSON flavor msg = (if Message msg = [] then [] else message_fragment flavor msg)"
  by (simp add: encodeMsgInRawJSON_def message_fragment_def Let_def)

lemma encodeMsgInRawJSON_empty_iff: "encodeMsgInRawJSON flavor msg = [] \<longleftrightarrow> Message msg = []"
  by (simp add: encodeMsgInRawJSON_eq message_fragment_nonempty)

text \<open>
  The tests of \<^verbatim>\<open>FatalJSONMsg\<close> are on the encoded fragments; an encoded fragment is empty
  exactly when the message has no text, so they choose the message \<open>fallback_error\<close>
  names.
\<close>

lemma error_fragment_eq:
  "(let errMsgJSON = encodeMsgInRawJSON ''error'' msg in
    if errMsgJSON = [] then
      (let errMsgJSON = encodeMsgInRawJSON ''error'' (storedFatalError g)
       in if errMsgJSON = [] then
            (let errMsg = NewMsg ''Unknown Fatal Error (Coding Error?)'' 0 ''UNKNOWN''
             in encodeMsgInRawJSON ''error'' errMsg)
          else errMsgJSON)
    else errMsgJSON) = message_fragment ''error'' (fallback_error g msg)"
proof (cases "Message msg = []")
  case False
  then show ?thesis
    by (simp add: Let_def encodeMsgInRawJSON_empty_iff fallback_error_def)
       (simp add: encodeMsgInRawJSON_eq)
next
  case True
  show ?thesis
  proof (cases "Message (storedFatalError g) = []")
    case False
    with True show ?thesis
      by (simp add: Let_def encodeMsgInRawJSON_empty_iff fallback_error_def)
         (simp add: encodeMsgInRawJSON_eq)
  next
    case e: True
    have "encodeMsgInRawJSON ''error'' (NewMsg ''Unknown Fatal Error (Coding Error?)'' 0 ''UNKNOWN'')
          = message_fragment ''error''
              \<lparr>Message = ''Unknown Fatal Error (Coding Error?)'', Code = 0, Level = ''UNKNOWN''\<rparr>"
      by (simp add: encodeMsgInRawJSON_eq NewMsg_def)
    with True e show ?thesis
      by (simp add: Let_def encodeMsgInRawJSON_empty_iff fallback_error_def)
  qed
qed

lemma latched_fragments_eq:
  "(let noteMsgJSON = encodeMsgInRawJSON ''note'' (storedNote g);
        warnMsgJSON = encodeMsgInRawJSON ''warning'' (storedNonFatalWarning g);
        msgsJSON = [];
        msgsJSON = (if noteMsgJSON \<noteq> [] then noteMsgJSON @ '', '' else msgsJSON)
    in (if warnMsgJSON \<noteq> [] then msgsJSON @ warnMsgJSON @ '', '' else msgsJSON))
   = latched_fragments g"
  by (cases "Message (storedNote g) = []"; cases "Message (storedNonFatalWarning g) = []")
     (simp_all add: Let_def latched_fragments_def encodeMsgInRawJSON_eq message_fragment_nonempty)

lemma FatalJSONMsg_raw:
  "FatalJSONMsg px g version msg =
     (case PrettyJSON px g (fallback_fragment version (latched_fragments g) (fallback_error g msg)) [] of
        (out, None) \<Rightarrow> out
      | (out, Some e) \<Rightarrow> fallback_fragment version (latched_fragments g) (fallback_error g msg))"
proof -
  define raw where "raw = fallback_fragment version (latched_fragments g) (fallback_error g msg)"
  have shape: "''{ \"apiVersion\":\"'' @ version @ ''\", \"id\": '' @ fmt_d (- 1) @ '', ''
        @ (latched_fragments g @ message_fragment ''error'' (fallback_error g msg)) @ '' }'' = raw"
    by (simp add: raw_def fallback_fragment_def fmt_d_minus_one)
  have "FatalJSONMsg px g version msg =
     (case PrettyJSON px g raw [] of (out, err) \<Rightarrow> if err \<noteq> None then raw else out)"
    unfolding FatalJSONMsg_def
    using error_fragment_eq [of msg g] latched_fragments_eq [of g] shape
    by (simp only: Let_def)
  then show ?thesis
    unfolding raw_def by (simp split: prod.splits option.splits)
qed

text \<open>
  Claim C7, as amended. For every version and every message, \<^verbatim>\<open>FatalJSONMsg\<close> returns
  (it has no failing path) the fragment
  \<^verbatim>\<open>{ "apiVersion":"<version>", "id": -1, <note and warning fragments, when latched> "error": { "message": "<escaped>", "code": <n>, "level": "<level>"} }\<close>
  as \<^verbatim>\<open>PrettyJSON\<close> formats it, and the raw fragment itself when formatting fails. The
  error fragment is built from the given message, its text escaped by
  \<^verbatim>\<open>EscapeJSONString\<close>, when that text is not empty; from the latched fatal error when the
  given text is empty and a fatal error is latched; and from the message
  \<^verbatim>\<open>Unknown Fatal Error (Coding Error?)\<close> with the code 0 and the level \<^verbatim>\<open>UNKNOWN\<close> otherwise.
\<close>

theorem FatalJSONMsg_returns_fragment:
  "FatalJSONMsg px g version msg =
     (case PrettyJSON px g (fallback_fragment version (latched_fragments g) (fallback_error g msg)) [] of
        (out, None) \<Rightarrow> out
      | (out, Some e) \<Rightarrow> fallback_fragment version (latched_fragments g) (fallback_error g msg))
   \<and> (Message msg \<noteq> [] \<longrightarrow> fallback_error g msg = msg)
   \<and> (Message msg = [] \<and> Message (storedFatalError g) \<noteq> [] \<longrightarrow>
        fallback_error g msg = storedFatalError g)
   \<and> (Message msg = [] \<and> Message (storedFatalError g) = [] \<longrightarrow>
        fallback_error g msg =
          \<lparr>Message = ''Unknown Fatal Error (Coding Error?)'', Code = 0, Level = ''UNKNOWN''\<rparr>)"
  using FatalJSONMsg_raw [of px g version msg] by (simp add: fallback_error_def)

text \<open>
  The theorem at a message with a text (a double quote in it), with a note latched:
  once with an indenter that fails, which returns the raw fragment, and once in raw
  mode.
\<close>

theorem FatalJSONMsg_returns_fragment_witness:
  "FatalJSONMsg (demo_platform True False [])
     (initial_globals\<lparr>storedNote := NewMsg ''see log'' 0 ''NOTE''\<rparr>) ''0.1''
     \<lparr>Message = [CHR ''a'', CHR 0x22], Code = 1002, Level = ''FATAL''\<rparr>
   = ''{ \"apiVersion\":\"0.1\", \"id\": -1, \"note\": { \"message\": \"see log\", \"code\": 0, \"level\": \"NOTE\"}, ''
     @ ''\"error\": { \"message\": \"a'' @ CHR 0x5C # ''u0022\", \"code\": 1002, \"level\": \"FATAL\"} }''
   \<and> FatalJSONMsg (demo_platform True True []) (SetJSONRaw True initial_globals) ''0.1''
       \<lparr>Message = ''x'', Code = 7, Level = ''FATAL''\<rparr>
     = ''{ \"apiVersion\":\"0.1\", \"id\": -1, \"error\": { \"message\": \"x\", \"code\": 7, \"level\": \"FATAL\"} }''"
proof -
  have e: "EscapeJSONString [CHR ''a'', CHR 0x22] = ''a'' @ CHR 0x5C # ''u0022''"
    "EscapeJSONString ''see log'' = ''see log''" "EscapeJSONString ''x'' = ''x''"
    by (simp_all add: EscapeJSONString_def escape_bytes_concat escape_byte_def json_special_def
        byte_val_def hex_digit_def hextable_def)
  have n: "fmt_d 1002 = ''1002''" "fmt_d 0 = ''0''" "fmt_d 7 = ''7''"
    by (simp_all add: fmt_d_def nat_digits.simps)
  show ?thesis
    using FatalJSONMsg_returns_fragment [of "demo_platform True False []"
        "initial_globals\<lparr>storedNote := NewMsg ''see log'' 0 ''NOTE''\<rparr>" "''0.1''"
        "\<lparr>Message = [CHR ''a'', CHR 0x22], Code = 1002, Level = ''FATAL''\<rparr>"]
      FatalJSONMsg_returns_fragment [of "demo_platform True True []"
        "SetJSONRaw True initial_globals" "''0.1''" "\<lparr>Message = ''x'', Code = 7, Level = ''FATAL''\<rparr>"]
    by (simp add: PrettyJSON_def demo_platform_def initial_globals_def zeroMsg_def NewMsg_def
        SetJSONRaw_def Let_def fallback_fragment_def latched_fragments_def message_fragment_def e n)
qed

text \<open>
  The claim as stated fails at a message with an empty text: with nothing latched,
  the fragment returned carries the unknown error with the code 0 and the level
  \<^verbatim>\<open>UNKNOWN\<close>, not the given message's empty text, code 5 and level X.
\<close>

theorem FatalJSONMsg_empty_message_counterexample:
  "FatalJSONMsg (demo_platform True True []) (SetJSONRaw True initial_globals) ''1.0''
     \<lparr>Message = [], Code = 5, Level = ''X''\<rparr>
   = ''{ \"apiVersion\":\"1.0\", \"id\": -1, \"error\": { \"message\": \"Unknown Fatal Error (Coding Error?)\", \"code\": 0, \"level\": \"UNKNOWN\"} }''
   \<and> FatalJSONMsg (demo_platform True True []) (SetJSONRaw True initial_globals) ''1.0''
       \<lparr>Message = [], Code = 5, Level = ''X''\<rparr>
     \<noteq> fallback_fragment ''1.0'' [] \<lparr>Message = [], Code = 5, Level = ''X''\<rparr>"
proof -
  have e: "EscapeJSONString ''Unknown Fatal Error (Coding Error?)'' = ''Unknown Fatal Error (Coding Error?)''"
    "EscapeJSONString [] = []"
    by (simp_all add: EscapeJSONString_def escape_bytes_concat escape_byte_def json_special_def
        byte_val_def)
  have n: "fmt_d 5 = ''5''" "fmt_d 0 = ''0''"
    by (simp_all add: fmt_d_def nat_digits.simps)
  show ?thesis
    by (simp add: FatalJSONMsg_raw PrettyJSON_def demo_platform_def initial_globals_def zeroMsg_def
        SetJSONRaw_def fallback_error_def fallback_fragment_def latched_fragments_def
        message_fragment_def e n)
qed

text \<open>
  A text with a backslash is spliced as it is: \<^verbatim>\<open>EscapeJSONString\<close> leaves the byte 92
  alone, so the fragment below holds the two bytes backslash, q inside a quoted text.
\<close>

lemma FatalJSONMsg_backslash_kept:
  "FatalJSONMsg (demo_platform True True []) (SetJSONRaw True initial_globals) ''1.0''
     \<lparr>Message = [CHR 0x5C, CHR ''q''], Code = 5, Level = ''X''\<rparr>
   = ''{ \"apiVersion\":\"1.0\", \"id\": -1, \"error\": { \"message\": \"''
     @ [CHR 0x5C, CHR ''q''] @ ''\", \"code\": 5, \"level\": \"X\"} }''"
proof -
  have e: "EscapeJSONString [CHR 0x5C, CHR ''q''] = [CHR 0x5C, CHR ''q'']"
    by (simp add: EscapeJSONString_def escape_bytes_concat escape_byte_def json_special_def
        byte_val_def)
  have n: "fmt_d 5 = ''5''"
    by (simp add: fmt_d_def nat_digits.simps)
  show ?thesis
    by (simp add: FatalJSONMsg_raw PrettyJSON_def demo_platform_def initial_globals_def zeroMsg_def
        SetJSONRaw_def fallback_error_def fallback_fragment_def latched_fragments_def
        message_fragment_def e n)
qed

section \<open>The output builder\<close>

subsection \<open>The local variables before the first encoding\<close>

lemma build_errMsg:
  "errMsg_of (GetJSONOutput_build px g apiVer ctx kind verbosity fs items) =
     (if apiVer = [] \<and> osGetenv px ''PKG_API_APIVER'' = []
      then \<lparr>Message = ''No valid JSON API version is available'', Code = 1001, Level = ''FATAL''\<rparr>
      else if Message (storedFatalError g) \<noteq> []
      then (storedFatalError g)\<lparr>Message := EscapeJSONString (Message (storedFatalError g))\<rparr>
      else zeroMsg)"
  by (simp add: GetJSONOutput_build_def Let_def zeroMsg_def)

lemma build_errMsg_empty:
  "Message (errMsg_of (GetJSONOutput_build px g apiVer ctx kind verbosity fs items)) = [] \<longleftrightarrow>
     \<not> (apiVer = [] \<and> osGetenv px ''PKG_API_APIVER'' = []) \<and> Message (storedFatalError g) = []"
  by (simp add: build_errMsg zeroMsg_def EscapeJSONString_empty_iff)

lemma build_fatalErr:
  "fatalErr_of (GetJSONOutput_build px g apiVer ctx kind verbosity fs items) =
     (Message (errMsg_of (GetJSONOutput_build px g apiVer ctx kind verbosity fs items)) \<noteq> [])"
  by (simp add: GetJSONOutput_build_def Let_def zeroMsg_def EscapeJSONString_empty_iff)

lemma build_apiVer:
  "apiVer_of (GetJSONOutput_build px g apiVer ctx kind verbosity fs items) =
     (if apiVer \<noteq> [] then apiVer
      else if osGetenv px ''PKG_API_APIVER'' \<noteq> [] then osGetenv px ''PKG_API_APIVER''
      else ''?.?'')"
  by (simp add: GetJSONOutput_build_def Let_def)

lemma build_root_error:
  "Message (errMsg_of (GetJSONOutput_build px g apiVer ctx kind verbosity fs items)) \<noteq> [] \<Longrightarrow>
   apiRoot_of (GetJSONOutput_build px g apiVer ctx kind verbosity fs items) =
     \<lparr>APIVersion = apiVer_of (GetJSONOutput_build px g apiVer ctx kind verbosity fs items),
      Context = ctx, ID = - 1, Note = None, Warning = None,
      Error = Some (errMsg_of (GetJSONOutput_build px g apiVer ctx kind verbosity fs items)),
      Data = None\<rparr>"
  by (simp add: GetJSONOutput_build_def Let_def zeroMsg_def newAPIData_def EscapeJSONString_empty_iff
      split: if_splits)

lemma build_root_ok:
  "Message (errMsg_of (GetJSONOutput_build px g apiVer ctx kind verbosity fs items)) = [] \<Longrightarrow>
   ID (apiRoot_of (GetJSONOutput_build px g apiVer ctx kind verbosity fs items)) = 0 \<and>
   Error (apiRoot_of (GetJSONOutput_build px g apiVer ctx kind verbosity fs items)) = None \<and>
   Data (apiRoot_of (GetJSONOutput_build px g apiVer ctx kind verbosity fs items)) =
     Data (SetAPIItems kind verbosity fs items (newAPIData [] []))"
  by (simp add: GetJSONOutput_build_def Let_def zeroMsg_def newAPIData_def SetAPIItems_def
      EscapeJSONString_empty_iff split: if_splits)

lemma build_error_iff:
  "Error (apiRoot_of (GetJSONOutput_build px g apiVer ctx kind verbosity fs items)) \<noteq> None \<longleftrightarrow>
   Message (errMsg_of (GetJSONOutput_build px g apiVer ctx kind verbosity fs items)) \<noteq> []"
proof (cases "Message (errMsg_of (GetJSONOutput_build px g apiVer ctx kind verbosity fs items)) = []")
  case True
  then show ?thesis using build_root_ok [OF True] by simp
next
  case False
  then show ?thesis using build_root_error [OF False] by simp
qed

subsection \<open>The encodings\<close>

lemma encode_flag:
  "snd (GetJSONOutput_encode px g st) =
     (fatalErr_of st \<or> (marshal_failed px (apiRoot_of st) \<and> Message (errMsg_of st) = [])
      \<or> (case format_failure px g (apiRoot_of st) of None \<Rightarrow> False
          | Some e \<Rightarrow> marshal_failed px (reencoded_root (warnMsg_of st) e (apiRoot_of st))))"
  by (auto simp: GetJSONOutput_encode_def Let_def marshal_failed_def format_failure_def
      reencoded_root_def split: sum.splits prod.splits option.splits)

lemma encode_output_marshal_failed:
  "marshal_failed px (apiRoot_of st) \<Longrightarrow> Message (errMsg_of st) \<noteq> [] \<Longrightarrow>
   fst (GetJSONOutput_encode px g st) = FatalJSONMsg px g (apiVer_of st) (errMsg_of st)"
  by (simp add: GetJSONOutput_encode_def Let_def marshal_failed_def split: sum.splits)

lemma GetJSONOutput_flag:
  "snd (GetJSONOutput px g apiVer ctx kind verbosity fs items) =
     (Error (apiRoot_of (GetJSONOutput_build px g apiVer ctx kind verbosity fs items)) \<noteq> None
      \<or> marshal_failed px (apiRoot_of (GetJSONOutput_build px g apiVer ctx kind verbosity fs items))
      \<or> (case format_failure px g
                 (apiRoot_of (GetJSONOutput_build px g apiVer ctx kind verbosity fs items)) of
            None \<Rightarrow> False
          | Some e \<Rightarrow>
              marshal_failed px
                (reencoded_root
                   (warnMsg_of (GetJSONOutput_build px g apiVer ctx kind verbosity fs items)) e
                   (apiRoot_of (GetJSONOutput_build px g apiVer ctx kind verbosity fs items)))))"
proof -
  let ?st = "GetJSONOutput_build px g apiVer ctx kind verbosity fs items"
  have a: "snd (GetJSONOutput px g apiVer ctx kind verbosity fs items) =
     (fatalErr_of ?st \<or> (marshal_failed px (apiRoot_of ?st) \<and> Message (errMsg_of ?st) = [])
      \<or> (case format_failure px g (apiRoot_of ?st) of None \<Rightarrow> False
          | Some e \<Rightarrow> marshal_failed px (reencoded_root (warnMsg_of ?st) e (apiRoot_of ?st))))"
    unfolding GetJSONOutput_def by (rule encode_flag)
  have b: "fatalErr_of ?st = (Error (apiRoot_of ?st) \<noteq> None)"
    by (simp only: build_fatalErr build_error_iff)
  have d: "Message (errMsg_of ?st) = [] \<longleftrightarrow> \<not> fatalErr_of ?st"
    by (simp add: build_fatalErr)
  show ?thesis
    unfolding a using b d by blast
qed

text \<open>
  Claim C2. For the root \<^verbatim>\<open>GetJSONOutput\<close> has built when it first encodes it, the id
  is -1 if and only if the error field is present: with no error the id is 0, and an
  error attached is the active error message, whose text is not empty, with the id
  -1. The root encoded again after a formatting failure has the same id and error.
\<close>

theorem GetJSONOutput_root_id_minus_one_iff_error:
  "(ID (apiRoot_of (GetJSONOutput_build px g apiVer ctx kind verbosity fs items)) = - 1
      \<longleftrightarrow> Error (apiRoot_of (GetJSONOutput_build px g apiVer ctx kind verbosity fs items)) \<noteq> None)
   \<and> (case Error (apiRoot_of (GetJSONOutput_build px g apiVer ctx kind verbosity fs items)) of
         None \<Rightarrow> ID (apiRoot_of (GetJSONOutput_build px g apiVer ctx kind verbosity fs items)) = 0
       | Some m \<Rightarrow> ID (apiRoot_of (GetJSONOutput_build px g apiVer ctx kind verbosity fs items)) = - 1
                  \<and> m = errMsg_of (GetJSONOutput_build px g apiVer ctx kind verbosity fs items)
                  \<and> Message m \<noteq> [])
   \<and> ID (reencoded_root w e (apiRoot_of (GetJSONOutput_build px g apiVer ctx kind verbosity fs items)))
       = ID (apiRoot_of (GetJSONOutput_build px g apiVer ctx kind verbosity fs items))
   \<and> Error (reencoded_root w e (apiRoot_of (GetJSONOutput_build px g apiVer ctx kind verbosity fs items)))
       = Error (apiRoot_of (GetJSONOutput_build px g apiVer ctx kind verbosity fs items))"
proof (cases "Message (errMsg_of (GetJSONOutput_build px g apiVer ctx kind verbosity fs items)) = []")
  case True
  then show ?thesis using build_root_ok [OF True] by (simp add: reencoded_root_def)
next
  case False
  then show ?thesis using build_root_error [OF False] by (simp add: reencoded_root_def)
qed

text \<open>
  Claim C1, as amended. The boolean \<^verbatim>\<open>GetJSONOutput\<close> returns is its variable
  \<^verbatim>\<open>fatalErr\<close>: it is true exactly when an error was attached to the root or an
  encoding attempt failed (the first, or the second one made after a formatting
  failure), and false otherwise; so a formatting failure alone, with both encodings
  succeeding and no error attached, leaves it false. An error is attached exactly
  when the version is missing (none passed, none in the environment) or a fatal error
  with a text is latched.
\<close>

theorem GetJSONOutput_returns_true_iff_fatal:
  "snd (GetJSONOutput px g apiVer ctx kind verbosity fs items) =
     (Error (apiRoot_of (GetJSONOutput_build px g apiVer ctx kind verbosity fs items)) \<noteq> None
      \<or> marshal_failed px (apiRoot_of (GetJSONOutput_build px g apiVer ctx kind verbosity fs items))
      \<or> (case format_failure px g
                 (apiRoot_of (GetJSONOutput_build px g apiVer ctx kind verbosity fs items)) of
            None \<Rightarrow> False
          | Some e \<Rightarrow>
              marshal_failed px
                (reencoded_root
                   (warnMsg_of (GetJSONOutput_build px g apiVer ctx kind verbosity fs items)) e
                   (apiRoot_of (GetJSONOutput_build px g apiVer ctx kind verbosity fs items)))))
   \<and> (Error (apiRoot_of (GetJSONOutput_build px g apiVer ctx kind verbosity fs items)) \<noteq> None
        \<longleftrightarrow> (apiVer = [] \<and> osGetenv px ''PKG_API_APIVER'' = [])
            \<or> Message (storedFatalError g) \<noteq> [])"
proof -
  let ?st = "GetJSONOutput_build px g apiVer ctx kind verbosity fs items"
  have c: "(Error (apiRoot_of ?st) \<noteq> None)
        \<longleftrightarrow> (apiVer = [] \<and> osGetenv px ''PKG_API_APIVER'' = []) \<or> Message (storedFatalError g) \<noteq> []"
    using build_errMsg_empty [of px g apiVer ctx kind verbosity fs items]
    by (simp only: build_error_iff) blast
  show ?thesis
    using GetJSONOutput_flag [of px g apiVer ctx kind verbosity fs items] c by blast
qed

text \<open>
  The theorem at three runs with the version 0.1 passed: an indenter that fails with
  both encodings succeeding and nothing latched returns false; an encoder that fails
  returns true; a latched fatal error returns true.
\<close>

theorem GetJSONOutput_returns_true_iff_fatal_witness:
  "snd (GetJSONOutput (demo_platform True False []) initial_globals
          ''0.1'' ''dvlnGlobs'' ''cfg'' [] [] [1, 2]) = False
   \<and> snd (GetJSONOutput (demo_platform False True []) initial_globals
          ''0.1'' ''dvlnGlobs'' ''cfg'' [] [] [1, 2]) = True
   \<and> snd (GetJSONOutput (demo_platform True True [])
          (SetStoredFatalError (NewMsg ''disk full'' 7 ''FATAL'') initial_globals)
          ''0.1'' ''dvlnGlobs'' ''cfg'' [] [] [1, 2]) = True"
  using GetJSONOutput_returns_true_iff_fatal [of "demo_platform True False []" initial_globals
      "''0.1''" "''dvlnGlobs''" "''cfg''" "[]" "[]" "[1, 2]"]
    GetJSONOutput_returns_true_iff_fatal [of "demo_platform False True []" initial_globals
      "''0.1''" "''dvlnGlobs''" "''cfg''" "[]" "[]" "[1, 2]"]
    GetJSONOutput_returns_true_iff_fatal [of "demo_platform True True []"
      "SetStoredFatalError (NewMsg ''disk full'' 7 ''FATAL'') initial_globals"
      "''0.1''" "''dvlnGlobs''" "''cfg''" "[]" "[]" "[1, 2]"]
  by (simp add: marshal_failed_def format_failure_def demo_platform_def PrettyJSON_def
      initial_globals_def zeroMsg_def SetStoredFatalError_def NewMsg_def)

text \<open>
  The claim as stated, with the boolean read as a success flag, fails on the plainest
  run: a version passed, nothing latched, the encoding and the formatting succeeding.
  No error is attached and no encoding fails, and the boolean returned is false. With
  an encoder that fails, the boolean returned is true.
\<close>

theorem GetJSONOutput_success_flag_counterexample:
  "snd (GetJSONOutput (demo_platform True True []) initial_globals
          ''0.1'' ''dvlnGlobs'' ''cfg'' [] [] [1, 2]) = False
   \<and> Error (apiRoot_of (GetJSONOutput_build (demo_platform True True []) initial_globals
          ''0.1'' ''dvlnGlobs'' ''cfg'' [] [] [1, 2])) = None
   \<and> \<not> marshal_failed (demo_platform True True [])
         (apiRoot_of (GetJSONOutput_build (demo_platform True True []) initial_globals
            ''0.1'' ''dvlnGlobs'' ''cfg'' [] [] [1, 2]))
   \<and> format_failure (demo_platform True True []) initial_globals
         (apiRoot_of (GetJSONOutput_build (demo_platform True True []) initial_globals
            ''0.1'' ''dvlnGlobs'' ''cfg'' [] [] [1, 2])) = None
   \<and> marshal_failed (demo_platform False True [])
         (apiRoot_of (GetJSONOutput_build (demo_platform False True []) initial_globals
            ''0.1'' ''dvlnGlobs'' ''cfg'' [] [] [1, 2]))
   \<and> snd (GetJSONOutput (demo_platform False True []) initial_globals
          ''0.1'' ''dvlnGlobs'' ''cfg'' [] [] [1, 2]) = True"
proof -
  have e: "Message (errMsg_of (GetJSONOutput_build (demo_platform m i []) initial_globals
          ''0.1'' ''dvlnGlobs'' ''cfg'' [] [] items)) = []" for m i items
    by (simp add: build_errMsg_empty initial_globals_def zeroMsg_def)
  have n: "Error (apiRoot_of (GetJSONOutput_build (demo_platform m i []) initial_globals
          ''0.1'' ''dvlnGlobs'' ''cfg'' [] [] items)) = None" for m i items
    using build_root_ok [OF e] by simp
  have f: "\<not> marshal_failed (demo_platform True True []) r"
    "marshal_failed (demo_platform False True []) r"
    "format_failure (demo_platform True True []) initial_globals r = None" for r
    by (simp_all add: marshal_failed_def format_failure_def demo_platform_def PrettyJSON_def
        initial_globals_def)
  show ?thesis
    by (simp add: GetJSONOutput_flag n f)
qed

text \<open>
  Claim C3, as amended. When the fatal-error accumulator holds a message with a text
  and a version is available (passed, or in the environment), \<^verbatim>\<open>GetJSONOutput\<close> returns
  the boolean true (its \<^verbatim>\<open>fatalErr\<close>), and the root it encodes has the id -1, the error
  field holding the latched message with its text escaped (and not empty), and no
  data section although items were passed; the root encoded again after a formatting
  failure has no data section either, and when the encoding fails the text returned
  is the fallback fragment of that error.
\<close>

theorem GetJSONOutput_latched_fatal_error:
  assumes latched: "Message (storedFatalError g) \<noteq> []"
    and version: "apiVer \<noteq> [] \<or> osGetenv px ''PKG_API_APIVER'' \<noteq> []"
  shows "snd (GetJSONOutput px g apiVer ctx kind verbosity fs items) = True
    \<and> apiRoot_of (GetJSONOutput_build px g apiVer ctx kind verbosity fs items) =
        \<lparr>APIVersion = (if apiVer \<noteq> [] then apiVer else osGetenv px ''PKG_API_APIVER''),
         Context = ctx, ID = - 1, Note = None, Warning = None,
         Error = Some ((storedFatalError g)
                        \<lparr>Message := EscapeJSONString (Message (storedFatalError g))\<rparr>),
         Data = None\<rparr>
    \<and> EscapeJSONString (Message (storedFatalError g)) \<noteq> []
    \<and> Data (reencoded_root w e
              (apiRoot_of (GetJSONOutput_build px g apiVer ctx kind verbosity fs items))) = None
    \<and> (marshal_failed px (apiRoot_of (GetJSONOutput_build px g apiVer ctx kind verbosity fs items))
         \<longrightarrow> fst (GetJSONOutput px g apiVer ctx kind verbosity fs items) =
           FatalJSONMsg px g (if apiVer \<noteq> [] then apiVer else osGetenv px ''PKG_API_APIVER'')
             ((storedFatalError g)\<lparr>Message := EscapeJSONString (Message (storedFatalError g))\<rparr>))"
proof -
  let ?st = "GetJSONOutput_build px g apiVer ctx kind verbosity fs items"
  have e: "errMsg_of ?st =
      (storedFatalError g)\<lparr>Message := EscapeJSONString (Message (storedFatalError g))\<rparr>"
    using latched version by (auto simp: build_errMsg)
  have ne: "Message (errMsg_of ?st) \<noteq> []"
    using latched version by (simp add: build_errMsg_empty)
  have v: "apiVer_of ?st = (if apiVer \<noteq> [] then apiVer else osGetenv px ''PKG_API_APIVER'')"
    using version by (auto simp: build_apiVer)
  have r: "apiRoot_of ?st =
        \<lparr>APIVersion = (if apiVer \<noteq> [] then apiVer else osGetenv px ''PKG_API_APIVER''),
         Context = ctx, ID = - 1, Note = None, Warning = None,
         Error = Some ((storedFatalError g)
                        \<lparr>Message := EscapeJSONString (Message (storedFatalError g))\<rparr>),
         Data = None\<rparr>"
    using build_root_error [OF ne] by (simp only: e v)
  have f: "snd (GetJSONOutput px g apiVer ctx kind verbosity fs items) = True"
    unfolding GetJSONOutput_def using ne by (simp add: encode_flag build_fatalErr)
  have n: "EscapeJSONString (Message (storedFatalError g)) \<noteq> []"
    using latched by (simp add: EscapeJSONString_empty_iff)
  have d: "Data (reencoded_root w e (apiRoot_of ?st)) = None"
    by (simp add: r reencoded_root_def)
  have o: "marshal_failed px (apiRoot_of ?st) \<longrightarrow>
         fst (GetJSONOutput px g apiVer ctx kind verbosity fs items) =
           FatalJSONMsg px g (if apiVer \<noteq> [] then apiVer else osGetenv px ''PKG_API_APIVER'')
             ((storedFatalError g)\<lparr>Message := EscapeJSONString (Message (storedFatalError g))\<rparr>)"
    unfolding GetJSONOutput_def
    using encode_output_marshal_failed [of px ?st g] ne by (simp only: e v) blast
  show ?thesis
    using f r n d o by blast
qed

text \<open>
  The theorem with the version 0.9 in the environment, two items passed and the
  latched text a, double quote.
\<close>

theorem GetJSONOutput_latched_fatal_error_witness:
  "Message (storedFatalError
      (SetStoredFatalError \<lparr>Message = [CHR ''a'', CHR 0x22], Code = 7, Level = ''FATAL''\<rparr>
         initial_globals)) \<noteq> []
   \<and> osGetenv (demo_platform True True ''0.9'') ''PKG_API_APIVER'' \<noteq> []
   \<and> snd (GetJSONOutput (demo_platform True True ''0.9'')
        (SetStoredFatalError \<lparr>Message = [CHR ''a'', CHR 0x22], Code = 7, Level = ''FATAL''\<rparr>
           initial_globals)
        [] ''dvlnGlobs'' ''cfg'' [] [''name''] [1, 2]) = True
   \<and> apiRoot_of (GetJSONOutput_build (demo_platform True True ''0.9'')
        (SetStoredFatalError \<lparr>Message = [CHR ''a'', CHR 0x22], Code = 7, Level = ''FATAL''\<rparr>
           initial_globals)
        [] ''dvlnGlobs'' ''cfg'' [] [''name''] [1, 2])
      = \<lparr>APIVersion = ''0.9'', Context = ''dvlnGlobs'', ID = - 1, Note = None, Warning = None,
         Error = Some \<lparr>Message = ''a'' @ CHR 0x5C # ''u0022'', Code = 7, Level = ''FATAL''\<rparr>,
         Data = None\<rparr>"
proof -
  let ?g = "SetStoredFatalError \<lparr>Message = [CHR ''a'', CHR 0x22], Code = 7, Level = ''FATAL''\<rparr>
              initial_globals"
  have l: "Message (storedFatalError ?g) \<noteq> []"
    by (simp add: SetStoredFatalError_def)
  have v: "[] \<noteq> ([] :: string) \<or> osGetenv (demo_platform True True ''0.9'') ''PKG_API_APIVER'' \<noteq> []"
    by (simp add: demo_platform_def)
  have e: "EscapeJSONString [CHR ''a'', CHR 0x22] = ''a'' @ CHR 0x5C # ''u0022''"
    by (simp add: EscapeJSONString_def escape_bytes_concat escape_byte_def json_special_def
        byte_val_def hex_digit_def hextable_def)
  show ?thesis
    using l v GetJSONOutput_latched_fatal_error [OF l v, of "''dvlnGlobs''" "''cfg''" "[]"
        "[''name'']" "[1, 2]"]
    by (simp add: demo_platform_def SetStoredFatalError_def e)
qed

text \<open>
  The claim as stated fails on the boolean: with a fatal error latched and the version
  0.1 passed, the boolean returned is true, not false.
\<close>

theorem GetJSONOutput_latched_fatal_error_counterexample:
  "Message (storedFatalError
      (SetStoredFatalError (NewMsg ''disk full'' 7 ''FATAL'') initial_globals)) \<noteq> []
   \<and> snd (GetJSONOutput (demo_platform True True [])
        (SetStoredFatalError (NewMsg ''disk full'' 7 ''FATAL'') initial_globals)
        ''0.1'' ''dvlnGlobs'' ''cfg'' [] [''name''] [1, 2]) = True"
proof -
  let ?g = "SetStoredFatalError (NewMsg ''disk full'' 7 ''FATAL'') initial_globals"
  have l: "Message (storedFatalError ?g) \<noteq> []"
    by (simp add: SetStoredFatalError_def NewMsg_def)
  have "Message (errMsg_of (GetJSONOutput_build (demo_platform True True []) ?g
        ''0.1'' ''dvlnGlobs'' ''cfg'' [] [''name''] items)) \<noteq> []" for items
    using l by (simp add: build_errMsg_empty)
  then have "snd (GetJSONOutput (demo_platform True True []) ?g
        ''0.1'' ''dvlnGlobs'' ''cfg'' [] [''name''] items) = True" for items
    unfolding GetJSONOutput_flag build_error_iff by simp
  then show ?thesis
    using l by simp
qed

text \<open>
  Claim C4, as amended. With an empty version argument and an empty
  \<^verbatim>\<open>PKG_API_APIVER\<close>, \<^verbatim>\<open>GetJSONOutput\<close> returns the boolean true (its \<^verbatim>\<open>fatalErr\<close>), and the
  root it encodes has the version \<^verbatim>\<open>?.?\<close>, the id -1, an error with the code 1001 and
  the level \<^verbatim>\<open>FATAL\<close> (whatever is latched) and no data section; when the encoding fails
  the text returned is the fallback fragment of that error for the version \<^verbatim>\<open>?.?\<close>.
\<close>

theorem GetJSONOutput_missing_version:
  assumes no_arg: "apiVer = []"
    and no_env: "osGetenv px ''PKG_API_APIVER'' = []"
  shows "snd (GetJSONOutput px g apiVer ctx kind verbosity fs items) = True
    \<and> apiRoot_of (GetJSONOutput_build px g apiVer ctx kind verbosity fs items) =
        \<lparr>APIVersion = ''?.?'', Context = ctx, ID = - 1, Note = None, Warning = None,
         Error = Some \<lparr>Message = ''No valid JSON API version is available'',
                       Code = 1001, Level = ''FATAL''\<rparr>,
         Data = None\<rparr>
    \<and> (marshal_failed px (apiRoot_of (GetJSONOutput_build px g apiVer ctx kind verbosity fs items))
         \<longrightarrow> fst (GetJSONOutput px g apiVer ctx kind verbosity fs items) =
           FatalJSONMsg px g ''?.?''
             \<lparr>Message = ''No valid JSON API version is available'',
              Code = 1001, Level = ''FATAL''\<rparr>)"
proof -
  let ?st = "GetJSONOutput_build px g apiVer ctx kind verbosity fs items"
  have e: "errMsg_of ?st =
      \<lparr>Message = ''No valid JSON API version is available'', Code = 1001, Level = ''FATAL''\<rparr>"
    using no_arg no_env by (simp add: build_errMsg)
  have ne: "Message (errMsg_of ?st) \<noteq> []"
    using no_arg no_env by (simp add: build_errMsg_empty)
  have v: "apiVer_of ?st = ''?.?''"
    using no_arg no_env by (simp add: build_apiVer)
  have r: "apiRoot_of ?st =
        \<lparr>APIVersion = ''?.?'', Context = ctx, ID = - 1, Note = None, Warning = None,
         Error = Some \<lparr>Message = ''No valid JSON API version is available'',
                       Code = 1001, Level = ''FATAL''\<rparr>,
         Data = None\<rparr>"
    using build_root_error [OF ne] by (simp only: e v)
  have f: "snd (GetJSONOutput px g apiVer ctx kind verbosity fs items) = True"
    unfolding GetJSONOutput_def using ne by (simp add: encode_flag build_fatalErr)
  have o: "marshal_failed px (apiRoot_of ?st) \<longrightarrow>
         fst (GetJSONOutput px g apiVer ctx kind verbosity fs items) =
           FatalJSONMsg px g ''?.?''
             \<lparr>Message = ''No valid JSON API version is available'',
              Code = 1001, Level = ''FATAL''\<rparr>"
    unfolding GetJSONOutput_def
    using encode_output_marshal_failed [of px ?st g] ne by (simp only: e v) blast
  show ?thesis
    using f r o by blast
qed

text \<open>
  The theorem with no version passed, none in the environment, a fatal error latched
  and an encoder that fails: the root and the fallback fragment carry the code 1001.
\<close>

theorem GetJSONOutput_missing_version_witness:
  "osGetenv (demo_platform False True []) ''PKG_API_APIVER'' = []
   \<and> snd (GetJSONOutput (demo_platform False True [])
        (SetJSONRaw True (SetStoredFatalError (NewMsg ''disk full'' 7 ''FATAL'') initial_globals))
        [] ''dvlnGlobs'' ''cfg'' [] [] [1, 2]) = True
   \<and> apiRoot_of (GetJSONOutput_build (demo_platform False True [])
        (SetJSONRaw True (SetStoredFatalError (NewMsg ''disk full'' 7 ''FATAL'') initial_globals))
        [] ''dvlnGlobs'' ''cfg'' [] [] [1, 2])
      = \<lparr>APIVersion = ''?.?'', Context = ''dvlnGlobs'', ID = - 1, Note = None, Warning = None,
         Error = Some \<lparr>Message = ''No valid JSON API version is available'',
                       Code = 1001, Level = ''FATAL''\<rparr>,
         Data = None\<rparr>
   \<and> fst (GetJSONOutput (demo_platform False True [])
        (SetJSONRaw True (SetStoredFatalError (NewMsg ''disk full'' 7 ''FATAL'') initial_globals))
        [] ''dvlnGlobs'' ''cfg'' [] [] [1, 2])
      = ''{ \"apiVersion\":\"?.?\", \"id\": -1, \"error\": { \"message\": \"No valid JSON API version is available\", \"code\": 1001, \"level\": \"FATAL\"} }''"
proof -
  have a: "([] :: string) = []" by simp
  have v: "osGetenv (demo_platform False True []) ''PKG_API_APIVER'' = []"
    by (simp add: demo_platform_def)
  have e: "EscapeJSONString ''No valid JSON API version is available''
      = ''No valid JSON API version is available''"
    by (simp add: EscapeJSONString_def escape_bytes_concat escape_byte_def json_special_def
        byte_val_def)
  have n: "fmt_d 1001 = ''1001''"
    by (simp add: fmt_d_def nat_digits.simps)
  have m: "marshal_failed (demo_platform False True []) r" for r
    by (simp add: marshal_failed_def demo_platform_def)
  show ?thesis
    using v GetJSONOutput_missing_version [OF a v, of
        "SetJSONRaw True (SetStoredFatalError (NewMsg ''disk full'' 7 ''FATAL'') initial_globals)"
        "''dvlnGlobs''" "''cfg''" "[]" "[]" "[1, 2]"]
    by (simp add: m FatalJSONMsg_raw PrettyJSON_def SetJSONRaw_def SetStoredFatalError_def
        initial_globals_def zeroMsg_def NewMsg_def fallback_error_def fallback_fragment_def
        latched_fragments_def message_fragment_def e n)
qed

text \<open>
  The claim as stated fails on the boolean: with no version passed and none in the
  environment, the boolean returned is true, not false.
\<close>

theorem GetJSONOutput_missing_version_counterexample:
  "osGetenv (demo_platform True True []) ''PKG_API_APIVER'' = []
   \<and> snd (GetJSONOutput (demo_platform True True []) initial_globals
        [] ''dvlnGlobs'' ''cfg'' [] [] [1, 2]) = True"
proof -
  have v: "osGetenv (demo_platform True True []) ''PKG_API_APIVER'' = []"
    by (simp add: demo_platform_def)
  have "Message (errMsg_of (GetJSONOutput_build (demo_platform True True []) initial_globals
        [] ''dvlnGlobs'' ''cfg'' [] [] items)) \<noteq> []" for items
    using v by (simp add: build_errMsg_empty)
  then have "snd (GetJSONOutput (demo_platform True True []) initial_globals
        [] ''dvlnGlobs'' ''cfg'' [] [] items) = True" for items
    unfolding GetJSONOutput_flag build_error_iff by simp
  then show ?thesis
    using v by simp
qed

end
